theory Spec2Isabelle
  imports Main "HOL-Library.Word"
begin

section \<open>JavaScript strings and values\<close>

text \<open>
  A JavaScript string is a sequence of UTF-16 code units. String literals of the source
  are written \<open>js ''...''\<close>.
\<close>

type_synonym code_unit = "16 word"
type_synonym js_string = "code_unit list"

definition js :: "string \<Rightarrow> js_string" where
  "js s = map of_char s"

text \<open>A string is falsy exactly when it is empty; \<open>undefined\<close> and \<open>null\<close> are falsy.\<close>

fun truthy :: "js_string option \<Rightarrow> bool" where
  "truthy None = False"
| "truthy (Some s) = (s \<noteq> [])"

text \<open>
  A value that is a string, \<open>undefined\<close> or \<open>null\<close>, and the text a template literal renders
  for it.
\<close>

datatype js_value = Undefined | Null | Str js_string

fun template :: "js_value \<Rightarrow> js_string" where
  "template Undefined = js ''undefined''"
| "template Null = js ''null''"
| "template (Str s) = s"

text \<open>A value that is a string or \<open>undefined\<close>, such as the result of indexing an array.\<close>

fun optional :: "js_string option \<Rightarrow> js_value" where
  "optional None = Undefined"
| "optional (Some s) = Str s"

text \<open>\<open>xs[i]\<close> on an array: \<open>undefined\<close> out of range.\<close>

fun index :: "'a list \<Rightarrow> nat \<Rightarrow> 'a option" where
  "index [] i = None"
| "index (x # xs) 0 = Some x"
| "index (x # xs) (Suc i) = index xs i"

text \<open>\<open>s.split(sep)\<close> for a separator of one code unit.\<close>

fun split :: "code_unit \<Rightarrow> js_string \<Rightarrow> js_string list" where
  "split sep [] = [[]]"
| "split sep (c # cs) =
     (if c = sep then [] # split sep cs
      else (case split sep cs of
              [] \<Rightarrow> [[c]]
            | w # ws \<Rightarrow> (c # w) # ws))"

text \<open>
  A thrown value: an \<open>Error\<close> object with its message, or any other value
  (\<open>e instanceof Error\<close> is false for it).
\<close>

datatype thrown = Error js_string | NonError

section \<open>The service module\<close>

subsection \<open>Data\<close>

text \<open>
  The \<open>File\<close> picked by the user. \<open>readAsDataURL\<close> is what a \<open>FileReader\<close> delivers for it:
  \<open>Some\<close> of \<open>reader.result\<close> when \<open>onload\<close> fires, \<open>None\<close> when \<open>onerror\<close> fires.
\<close>

record js_file =
  file_name :: js_string
  file_type :: js_string
  file_size :: nat
  readAsDataURL :: "js_string option"

text \<open>
  Request and response of \<open>ai.models.generateContent\<close>. Every property the source reaches
  through \<open>?.\<close> is optional (\<open>None\<close> stands for \<open>undefined\<close> and for \<open>null\<close>, which \<open>?.\<close>, a truth
  test and \<open>===\<close> with a string treat alike). The two fields of the inline data are read
  without a check and put into a template literal, which tells \<open>undefined\<close> from \<open>null\<close>.
\<close>

record blob =
  data :: js_value
  mimeType :: js_value

record part =
  inlineData :: "blob option"
  textPart :: "js_string option"

record content =
  parts :: "part list option"

record candidate =
  content :: "content option"
  finishReason :: "js_string option"

record response =
  candidates :: "candidate list option"

datatype modality = IMAGE

record request =
  model :: js_string
  contents :: content
  responseModalities :: "modality list"

text \<open>The external call either throws or returns a response.\<close>

datatype service_outcome = Throws thrown | Returns response

type_synonym service = "request \<Rightarrow> service_outcome"

text \<open>What a run does besides returning, in order.\<close>

datatype effect = FileRead | NetworkCall request | ConsoleError js_string

fun is_NetworkCall :: "effect \<Rightarrow> bool" where
  "is_NetworkCall (NetworkCall r) = True"
| "is_NetworkCall FileRead = False"
| "is_NetworkCall (ConsoleError l) = False"

subsection \<open>Constants and messages\<close>

definition MODEL_NAME :: js_string where
  "MODEL_NAME = js ''gemini-2.5-flash-image''"

definition msg_not_configured :: js_string where
  "msg_not_configured =
     js ''API_KEY environment variable not set. Please configure it to use the AI features.''"

definition msg_read_failure :: js_string where
  "msg_read_failure =
     js ''Failed to read image file. It may be corrupted or in an unsupported format.''"

definition msg_safety_blocked :: js_string where
  "msg_safety_blocked =
     js ''The request was blocked for safety reasons. Please adjust your prompt and try again.''"

definition msg_no_image :: js_string where
  "msg_no_image = js ''The AI did not return an image. Please try a different prompt.''"

definition msg_unknown_service :: js_string where
  "msg_unknown_service =
     js ''An unknown error occurred while communicating with the AI service.''"

subsection \<open>fileToBase64\<close>

text \<open>
  Resolves with \<open>reader.result.split(',')[1]\<close> (which is \<open>undefined\<close> when the result has no
  comma), rejects with the reader's error event, which is not an \<open>Error\<close>.
\<close>

definition fileToBase64 :: "js_file \<Rightarrow> thrown + js_string option" where
  "fileToBase64 f =
     (case readAsDataURL f of
        None \<Rightarrow> Inl NonError
      | Some result \<Rightarrow> Inr (index (split (of_char CHR '','') result) 1))"

subsection \<open>editImageWithAI\<close>

text \<open>\<open>response.candidates?.[0]\<close> and \<open>response.candidates?.[0]?.content?.parts?.[0]\<close>.\<close>

definition firstCandidate :: "response \<Rightarrow> candidate option" where
  "firstCandidate r = Option.bind (candidates r) (\<lambda>cs. index cs 0)"

definition firstPart :: "response \<Rightarrow> part option" where
  "firstPart r =
     Option.bind (Option.bind (Option.bind (firstCandidate r) content) parts) (\<lambda>ps. index ps 0)"

text \<open>
  The body of the second \<open>try\<close> block after the call has returned: the data URI of the first
  part's inline data, or one of two errors.
\<close>

definition interpretResponse :: "response \<Rightarrow> thrown + js_string" where
  "interpretResponse r =
     (case Option.bind (firstPart r) inlineData of
        Some b \<Rightarrow>
          Inr (js ''data:'' @ template (mimeType b) @ js '';base64,'' @ template (data b))
      | None \<Rightarrow>
          (if Option.bind (firstCandidate r) finishReason = Some (js ''SAFETY'')
           then Inl (Error msg_safety_blocked)
           else Inl (Error msg_no_image)))"

text \<open>The \<open>catch\<close> clause of the second \<open>try\<close> block.\<close>

fun rethrow :: "thrown \<Rightarrow> thrown" where
  "rethrow (Error m) = Error m"
| "rethrow NonError = Error msg_unknown_service"

definition buildRequest :: "js_file \<Rightarrow> js_string option \<Rightarrow> js_string \<Rightarrow> request" where
  "buildRequest imageFile base64ImageData prompt =
     \<lparr> model = MODEL_NAME,
       contents = \<lparr> parts = Some
         [ \<lparr> inlineData = Some \<lparr> data = optional base64ImageData,
                                  mimeType = Str (file_type imageFile) \<rparr>,
             textPart = None \<rparr>,
           \<lparr> inlineData = None, textPart = Some prompt \<rparr> ] \<rparr>,
       responseModalities = [IMAGE] \<rparr>"

text \<open>
  \<open>editImageWithAI\<close>, given the value of \<open>process.env.API_KEY\<close> and the service: the effects of
  the run in order, and the rejection (\<open>Inl\<close>) or the resolved string (\<open>Inr\<close>).
\<close>

definition editImageWithAI ::
  "js_string option \<Rightarrow> service \<Rightarrow> js_file \<Rightarrow> js_string \<Rightarrow> effect list \<times> (thrown + js_string)" where
  "editImageWithAI API_KEY generateContent imageFile prompt =
     (if \<not> truthy API_KEY then ([], Inl (Error msg_not_configured))
      else case fileToBase64 imageFile of
        Inl error \<Rightarrow>
          ([FileRead, ConsoleError (js ''Error reading file:'')], Inl (Error msg_read_failure))
      | Inr base64ImageData \<Rightarrow>
          (let req = buildRequest imageFile base64ImageData prompt in
           case generateContent req of
             Throws error \<Rightarrow>
               ([FileRead, NetworkCall req, ConsoleError (js ''Error calling AI service:'')],
                Inl (rethrow error))
           | Returns resp \<Rightarrow>
               (case interpretResponse resp of
                  Inr url \<Rightarrow> ([FileRead, NetworkCall req], Inr url)
                | Inl error \<Rightarrow>
                    ([FileRead, NetworkCall req, ConsoleError (js ''Error calling AI service:'')],
                     Inl (rethrow error)))))"

section \<open>The image display component\<close>

subsection \<open>The regular expression of handleDownload\<close>

text \<open>
  \<open>imageUrl.match(/data:([a-zA-Z0-9]+\/[a-zA-Z0-9-.+]+).*,.*/)\<close>: a backtracking matcher in
  continuation-passing style. A continuation receives the rest of the input after what has
  been matched so far; \<open>None\<close> means failure, which makes the caller backtrack.
\<close>

text \<open>The character classes \<open>[a-zA-Z0-9]\<close>, \<open>[a-zA-Z0-9-.+]\<close> and \<open>.\<close> (any code unit but a line terminator).\<close>

definition alnum :: "code_unit \<Rightarrow> bool" where
  "alnum c \<longleftrightarrow>
     (of_char CHR ''a'' \<le> c \<and> c \<le> of_char CHR ''z'') \<or>
     (of_char CHR ''A'' \<le> c \<and> c \<le> of_char CHR ''Z'') \<or>
     (of_char CHR ''0'' \<le> c \<and> c \<le> of_char CHR ''9'')"

definition subtype_char :: "code_unit \<Rightarrow> bool" where
  "subtype_char c \<longleftrightarrow>
     alnum c \<or> c = of_char CHR ''-'' \<or> c = of_char CHR ''.'' \<or> c = of_char CHR ''+''"

definition dot :: "code_unit \<Rightarrow> bool" where
  "dot c \<longleftrightarrow> c \<noteq> 0x000A \<and> c \<noteq> 0x000D \<and> c \<noteq> 0x2028 \<and> c \<noteq> 0x2029"

text \<open>A literal.\<close>

fun rx_lit :: "js_string \<Rightarrow> (js_string \<Rightarrow> 'r option) \<Rightarrow> js_string \<Rightarrow> 'r option" where
  "rx_lit [] k s = k s"
| "rx_lit (l # ls) k [] = None"
| "rx_lit (l # ls) k (c # cs) = (if c = l then rx_lit ls k cs else None)"

text \<open>Greedy \<open>P*\<close>: first try to take one more code unit, and only then to go on from here.\<close>

fun rx_star :: "(code_unit \<Rightarrow> bool) \<Rightarrow> (js_string \<Rightarrow> 'r option) \<Rightarrow> js_string \<Rightarrow> 'r option" where
  "rx_star P k [] = k []"
| "rx_star P k (c # cs) =
     (if P c then (case rx_star P k cs of Some r \<Rightarrow> Some r | None \<Rightarrow> k (c # cs))
      else k (c # cs))"

text \<open>Greedy \<open>P+\<close>.\<close>

fun rx_plus :: "(code_unit \<Rightarrow> bool) \<Rightarrow> (js_string \<Rightarrow> 'r option) \<Rightarrow> js_string \<Rightarrow> 'r option" where
  "rx_plus P k [] = None"
| "rx_plus P k (c # cs) = (if P c then rx_star P k cs else None)"

text \<open>The text between two positions of the input, each given by the rest of the input there.\<close>

definition span :: "js_string \<Rightarrow> js_string \<Rightarrow> js_string" where
  "span s e = take (length s - length e) s"

text \<open>
  The pattern applied at the start of \<open>s\<close>. The result is the match array: the matched text
  and the text of group 1, which opens at \<open>g0\<close> and closes at \<open>g1\<close>.
\<close>

definition match_at :: "js_string \<Rightarrow> js_string list option" where
  "match_at s =
     rx_lit (js ''data:'') (\<lambda>g0.
       rx_plus alnum (rx_lit (js ''/'') (rx_plus subtype_char (\<lambda>g1.
         rx_star dot (rx_lit (js '','') (rx_star dot (\<lambda>e.
           Some [span s e, span g0 g1]))) g1))) g0) s"

text \<open>\<open>match\<close> without the global flag: the first position, from the left, where the pattern matches.\<close>

fun mimeTypeMatch :: "js_string \<Rightarrow> js_string list option" where
  "mimeTypeMatch [] = match_at []"
| "mimeTypeMatch (c # cs) =
     (case match_at (c # cs) of Some m \<Rightarrow> Some m | None \<Rightarrow> mimeTypeMatch cs)"

subsection \<open>handleDownload\<close>

definition extension :: "js_string \<Rightarrow> js_string" where
  "extension imageUrl =
     (case mimeTypeMatch imageUrl of
        None \<Rightarrow> js ''png''
      | Some m \<Rightarrow>
          (if length m > 1
           then template (optional (index (split (of_char CHR ''/'') (m ! 1)) 1))
           else js ''png''))"

text \<open>The link that is created and clicked: its \<open>href\<close> and its \<open>download\<close> attribute.\<close>

record anchor =
  href :: js_string
  download :: js_string

text \<open>\<open>None\<close>: the handler returned at once, since \<open>imageUrl\<close> is \<open>null\<close> or empty.\<close>

definition handleDownload :: "js_string option \<Rightarrow> anchor option" where
  "handleDownload imageUrl =
     (case imageUrl of
        None \<Rightarrow> None
      | Some url \<Rightarrow>
          (if url = [] then None
           else Some \<lparr> href = url, download = js ''genz-hub-edit.'' @ extension url \<rparr>))"

section \<open>The application component\<close>

text \<open>
  The state of \<open>App\<close>. The component comes in two versions, which differ in the name of
  the error slot (\<open>error\<close> in one, \<open>runtimeError\<close> in the other) and in the configuration
  guard that only the second has in \<open>handleSubmit\<close>.
\<close>

record app_state =
  originalImageFile :: "js_file option"
  prompt :: js_string
  editedImageUrl :: "js_string option"
  isLoading :: bool
  isUploading :: bool
  runtimeError :: "js_string option"

definition msg_too_large :: js_string where
  "msg_too_large = js ''Image size exceeds 4MB. Please choose a smaller file.''"

definition msg_invalid_type :: js_string where
  "msg_invalid_type = js ''Invalid file type. Please upload a PNG, JPG, or WEBP image.''"

definition msg_missing_input :: js_string where
  "msg_missing_input = js ''Please upload an image and enter a prompt.''"

definition msg_unknown :: js_string where
  "msg_unknown = js ''An unknown error occurred.''"

definition allowedTypes :: "js_string list" where
  "allowedTypes = [js ''image/png'', js ''image/jpeg'', js ''image/webp'']"

subsection \<open>handleImageChange\<close>

text \<open>What the handler does at once when a file was picked.\<close>

definition handleImageChange_start :: "app_state \<Rightarrow> app_state" where
  "handleImageChange_start s =
     s\<lparr> originalImageFile := None, editedImageUrl := None, runtimeError := None,
        isUploading := True \<rparr>"

text \<open>The callback that runs after the delay, on the state it finds then.\<close>

definition handleImageChange_timeout :: "js_file \<Rightarrow> app_state \<Rightarrow> app_state" where
  "handleImageChange_timeout f s =
     (if file_size f > 4 * 1024 * 1024
      then s\<lparr> runtimeError := Some msg_too_large, isUploading := False \<rparr>
      else if file_type f \<notin> set allowedTypes
      then s\<lparr> runtimeError := Some msg_invalid_type, isUploading := False \<rparr>
      else s\<lparr> originalImageFile := Some f, isUploading := False \<rparr>)"

text \<open>The handler with its callback, on \<open>event.target.files?.[0]\<close>.\<close>

definition handleImageChange :: "js_file option \<Rightarrow> app_state \<Rightarrow> app_state" where
  "handleImageChange picked s =
     (case picked of
        None \<Rightarrow> s
      | Some f \<Rightarrow> handleImageChange_timeout f (handleImageChange_start s))"

subsection \<open>handleSubmit\<close>

text \<open>
  The code units \<open>trim\<close> removes: white space (tab, vertical tab, form feed, space,
  no-break space, the byte order mark, the space separators) and line terminators.
\<close>

definition white_space :: "code_unit \<Rightarrow> bool" where
  "white_space c \<longleftrightarrow>
     c \<in> {0x0009, 0x000A, 0x000B, 0x000C, 0x000D, 0x0020, 0x00A0, 0x1680,
          0x2028, 0x2029, 0x202F, 0x205F, 0x3000, 0xFEFF} \<or>
     (0x2000 \<le> c \<and> c \<le> 0x200A)"

definition trim :: "js_string \<Rightarrow> js_string" where
  "trim s = rev (dropWhile white_space (rev (dropWhile white_space s)))"

text \<open>The three updates before the call.\<close>

definition handleSubmit_start :: "app_state \<Rightarrow> app_state" where
  "handleSubmit_start s = s\<lparr> isLoading := True, runtimeError := None, editedImageUrl := None \<rparr>"

text \<open>\<open>e instanceof Error ? e.message : 'An unknown error occurred.'\<close>\<close>

fun errorMessage :: "thrown \<Rightarrow> js_string" where
  "errorMessage (Error m) = m"
| "errorMessage NonError = msg_unknown"

text \<open>
  What follows the \<open>await\<close>, on the state found then: the rest of the \<open>try\<close> block or the
  \<open>catch\<close> clause, and then the \<open>finally\<close> clause.
\<close>

definition handleSubmit_settle :: "thrown + js_string \<Rightarrow> app_state \<Rightarrow> app_state" where
  "handleSubmit_settle outcome s =
     (case outcome of
        Inr resultUrl \<Rightarrow> s\<lparr> editedImageUrl := Some resultUrl \<rparr>
      | Inl e \<Rightarrow> s\<lparr> runtimeError := Some (errorMessage e) \<rparr>)
     \<lparr> isLoading := False \<rparr>"

text \<open>The version of the handler that has no configuration guard.\<close>

definition handleSubmit_v1 :: "js_string option \<Rightarrow> service \<Rightarrow> app_state \<Rightarrow> app_state" where
  "handleSubmit_v1 API_KEY generateContent s =
     (case originalImageFile s of
        None \<Rightarrow> s\<lparr> runtimeError := Some msg_missing_input \<rparr>
      | Some f \<Rightarrow>
          (if trim (prompt s) = [] then s\<lparr> runtimeError := Some msg_missing_input \<rparr>
           else handleSubmit_settle
                  (snd (editImageWithAI API_KEY generateContent f (prompt s)))
                  (handleSubmit_start s)))"

text \<open>The version with the guard: \<open>isApiConfigured\<close> is \<open>!!process.env.API_KEY\<close>.\<close>

definition handleSubmit :: "js_string option \<Rightarrow> service \<Rightarrow> app_state \<Rightarrow> app_state" where
  "handleSubmit API_KEY generateContent s =
     (if \<not> truthy API_KEY then s
      else handleSubmit_v1 API_KEY generateContent s)"

section \<open>What the pattern of handleDownload reads\<close>

text \<open>
  \<open>url\<close> is \<open>data:\<close>, then \<open>ty\<close>, a slash, \<open>sub\<close> and \<open>rest\<close>, where \<open>ty\<close> is a non-empty run of
  \<open>[a-zA-Z0-9]\<close>, \<open>sub\<close> is a non-empty run of \<open>[a-zA-Z0-9-.+]\<close> that \<open>rest\<close> does not continue, and
  \<open>rest\<close> has a comma before any line terminator. This is the reading of the pattern, not the
  general form of a data URI: \<open>sub\<close> ends at the first code unit outside its class, also
  when the media type of the URI goes on (\<open>data:image/x_y;base64,AAAA\<close> is read with \<open>sub\<close>
  being \<open>x\<close>), and a type with a code unit outside \<open>[a-zA-Z0-9]\<close> is not read at all.
\<close>

definition pattern_reads :: "js_string \<Rightarrow> js_string \<Rightarrow> js_string \<Rightarrow> js_string \<Rightarrow> bool" where
  "pattern_reads url ty sub rest \<longleftrightarrow>
     url = js ''data:'' @ ty @ js ''/'' @ sub @ rest \<and>
     ty \<noteq> [] \<and> list_all alnum ty \<and>
     sub \<noteq> [] \<and> list_all subtype_char sub \<and>
     (case rest of [] \<Rightarrow> True | c # cs \<Rightarrow> \<not> subtype_char c) \<and>
     of_char CHR '','' \<in> set (takeWhile dot rest)"

section \<open>Example inputs\<close>

definition example_key :: "js_string option" where
  "example_key = Some (js ''secret'')"

definition example_file :: js_file where
  "example_file =
     \<lparr> file_name = js ''cat.png'', file_type = js ''image/png'', file_size = 2 * 1024 * 1024,
       readAsDataURL = Some (js ''data:image/png;base64,iVBORw0KGgo='') \<rparr>"

definition unreadable_file :: js_file where
  "unreadable_file = example_file \<lparr> readAsDataURL := None \<rparr>"

definition large_file :: js_file where
  "large_file = example_file \<lparr> file_type := js ''image/gif'', file_size := 5 * 1024 * 1024 \<rparr>"

definition image_part :: part where
  "image_part =
     \<lparr> inlineData = Some \<lparr> data = Str (js ''QUJD''), mimeType = Str (js ''image/png'') \<rparr>,
       textPart = None \<rparr>"

definition other_part :: part where
  "other_part =
     \<lparr> inlineData = Some \<lparr> data = Str (js ''WFla''), mimeType = Str (js ''image/jpeg'') \<rparr>,
       textPart = None \<rparr>"

definition image_and_safety_response :: response where
  "image_and_safety_response =
     \<lparr> candidates = Some
         [\<lparr> content = Some \<lparr> parts = Some [image_part] \<rparr>,
            finishReason = Some (js ''SAFETY'') \<rparr>] \<rparr>"

text \<open>
  Two candidates with two parts each; only the first part of the first candidate is the PNG
  image, and the first candidate's completion reason is \<open>SAFETY\<close>.
\<close>

definition two_candidate_response :: response where
  "two_candidate_response =
     \<lparr> candidates = Some
         [\<lparr> content = Some \<lparr> parts = Some [image_part, other_part] \<rparr>,
            finishReason = Some (js ''SAFETY'') \<rparr>,
          \<lparr> content = Some \<lparr> parts = Some [other_part, image_part] \<rparr>,
            finishReason = Some (js ''STOP'') \<rparr>] \<rparr>"

definition blocked_response :: response where
  "blocked_response =
     \<lparr> candidates = Some [\<lparr> content = None, finishReason = Some (js ''SAFETY'') \<rparr>] \<rparr>"

definition text_only_response :: response where
  "text_only_response =
     \<lparr> candidates = Some
         [\<lparr> content = Some \<lparr> parts = Some [\<lparr> inlineData = None, textPart = Some (js ''no'') \<rparr>] \<rparr>,
            finishReason = Some (js ''STOP'') \<rparr>] \<rparr>"

definition example_state :: app_state where
  "example_state =
     \<lparr> originalImageFile = Some example_file, prompt = js ''add a hat'',
       editedImageUrl = Some (js ''data:image/png;base64,T0xE''), isLoading = False,
       isUploading = False, runtimeError = None \<rparr>"

section \<open>Lemmas\<close>

lemmas example_defs = example_key_def example_file_def unreadable_file_def large_file_def
  image_part_def other_part_def image_and_safety_response_def two_candidate_response_def
  blocked_response_def text_only_response_def example_state_def

subsection \<open>Literals\<close>

lemma rx_lit_append: "rx_lit l k (l @ s) = k s"
  by (induction l) simp_all

lemma rx_lit_Some: "rx_lit l k s = Some r \<Longrightarrow> \<exists>t. s = l @ t \<and> k t = Some r"
proof (induction l k s rule: rx_lit.induct)
  case (1 k s)
  then show ?case by simp
next
  case (2 l ls k)
  then show ?case by simp
next
  case (3 l ls k c cs)
  then show ?case by (cases "c = l") simp_all
qed

subsection \<open>Greedy repetition\<close>

text \<open>If the continuation succeeds after the whole run, that is the result.\<close>

lemma rx_star_greedy: "k (dropWhile P s) = Some r \<Longrightarrow> rx_star P k s = Some r"
  by (induction s) (auto split: if_splits)

text \<open>
  A result comes from the continuation after some part of the run, and from the longest
  such part: one code unit further on the repetition fails.
\<close>

lemma rx_star_longest:
  "rx_star P k s = Some r \<Longrightarrow>
     \<exists>a t. s = a @ t \<and> (\<forall>c \<in> set a. P c) \<and> k t = Some r \<and>
       (case t of [] \<Rightarrow> True | c # cs \<Rightarrow> P c \<longrightarrow> rx_star P k cs = None)"
proof (induction s)
  case Nil
  then show ?case by simp
next
  case (Cons c cs)
  show ?case
  proof (cases "P c \<and> rx_star P k cs \<noteq> None")
    case True
    with Cons.prems have "rx_star P k cs = Some r" by auto
    from Cons.IH [OF this] obtain a t where at: "cs = a @ t" "\<forall>c \<in> set a. P c" "k t = Some r"
      "case t of [] \<Rightarrow> True | c # cs \<Rightarrow> P c \<longrightarrow> rx_star P k cs = None"
      by (elim exE conjE)
    with True have "c # cs = (c # a) @ t \<and> (\<forall>x \<in> set (c # a). P x) \<and> k t = Some r \<and>
       (case t of [] \<Rightarrow> True | c # cs \<Rightarrow> P c \<longrightarrow> rx_star P k cs = None)"
      by simp
    then show ?thesis by blast
  next
    case False
    with Cons.prems have "k (c # cs) = Some r"
      by (cases "P c"; cases "rx_star P k cs") simp_all
    with False have "c # cs = [] @ (c # cs) \<and> (\<forall>x \<in> set []. P x) \<and> k (c # cs) = Some r \<and>
       (case c # cs of [] \<Rightarrow> True | c # cs \<Rightarrow> P c \<longrightarrow> rx_star P k cs = None)"
      by simp
    then show ?thesis by blast
  qed
qed

lemma rx_star_Some:
  assumes "rx_star P k s = Some r"
  shows "\<exists>a t. s = a @ t \<and> (\<forall>c \<in> set a. P c) \<and> k t = Some r"
proof -
  from rx_star_longest [OF assms] obtain a t
    where "s = a @ t \<and> (\<forall>c \<in> set a. P c) \<and> k t = Some r"
    by (elim exE conjE) simp
  then show ?thesis by blast
qed

lemma rx_star_total: "(\<And>t. k t \<noteq> None) \<Longrightarrow> rx_star P k s \<noteq> None"
  by (induction s) (auto split: option.splits)

lemma rx_star_reaches:
  assumes "\<forall>c \<in> set a. P c" and "k t \<noteq> None"
  shows "rx_star P k (a @ t) \<noteq> None"
  using assms
proof (induction a)
  case Nil
  then show ?case by (cases t) (auto split: option.splits)
next
  case (Cons c a)
  then show ?case by (auto split: option.splits)
qed

lemma rx_plus_greedy:
  assumes "a \<noteq> []" and "\<forall>c \<in> set a. P c"
    and "case t of [] \<Rightarrow> True | c # cs \<Rightarrow> \<not> P c" and "k t = Some r"
  shows "rx_plus P k (a @ t) = Some r"
proof -
  from assms(1) obtain c a' where a: "a = c # a'" by (cases a) auto
  have "dropWhile P (a' @ t) = t"
    using assms(2,3) a by (cases t) (simp_all add: dropWhile_append)
  with assms a show ?thesis by (simp add: rx_star_greedy)
qed


subsection \<open>Splitting and spans\<close>

lemma split_no_sep: "sep \<notin> set s \<Longrightarrow> split sep s = [s]"
  by (induction s) auto

lemma split_append: "sep \<notin> set a \<Longrightarrow> split sep (a @ sep # b) = a # split sep b"
  by (induction a) auto

lemma span_append: "span (a @ t) t = a"
  by (simp add: span_def)

subsection \<open>The character classes\<close>

lemma alnum_not_slash: "alnum c \<Longrightarrow> c \<noteq> of_char CHR ''/''"
  by (auto simp: alnum_def)

lemma subtype_char_not_slash: "subtype_char c \<Longrightarrow> c \<noteq> of_char CHR ''/''"
  by (auto simp: subtype_char_def alnum_def)





lemma split_media_type:
  assumes "\<forall>c \<in> set ty. alnum c" and "\<forall>c \<in> set sub. subtype_char c"
  shows "split (of_char CHR ''/'') (ty @ js ''/'' @ sub) = [ty, sub]"
proof -
  have "of_char CHR ''/'' \<notin> set ty" using assms(1) alnum_not_slash by blast
  moreover have "of_char CHR ''/'' \<notin> set sub" using assms(2) subtype_char_not_slash by blast
  ultimately show ?thesis
    using split_append [of "of_char CHR ''/''" ty sub] split_no_sep [of "of_char CHR ''/''" sub]
    by (simp add: js_def)
qed

subsection \<open>The pattern at one position\<close>

text \<open>
  The tail \<open>.*,.*\<close> of the pattern matches exactly when a comma comes before the first line
  terminator, and a match ends in the last continuation.
\<close>

lemma tail_matches:
  assumes "of_char CHR '','' \<in> set (takeWhile dot r)"
  shows "\<exists>e. rx_star dot (rx_lit (js '','') (rx_star dot (\<lambda>e. Some (F e)))) r = Some (F e)"
proof -
  let ?K = "rx_star dot (\<lambda>e. Some (F e))"
  let ?k = "rx_lit (js '','') ?K"
  from assms obtain a b where ab: "takeWhile dot r = a @ of_char CHR '','' # b"
    by (auto dest: split_list)
  have "set a \<subseteq> set (takeWhile dot r)" using ab by auto
  then have a: "\<forall>c \<in> set a. dot c" by (auto dest: set_takeWhileD)
  have r: "r = a @ (of_char CHR '','' # b @ dropWhile dot r)"
    using takeWhile_dropWhile_id [of dot r] ab by simp
  have K: "?K t \<noteq> None" for t by (rule rx_star_total) simp
  have "?k (of_char CHR '','' # b @ dropWhile dot r) \<noteq> None"
    using K by (simp add: js_def)
  with a have "rx_star dot ?k (a @ (of_char CHR '','' # b @ dropWhile dot r)) \<noteq> None"
    by (rule rx_star_reaches)
  with r obtain m where m: "rx_star dot ?k r = Some m" by auto
  from rx_star_Some [OF m] obtain t where "?k t = Some m" by blast
  from rx_lit_Some [OF this] obtain t' where "?K t' = Some m" by blast
  from rx_star_Some [OF this] obtain e where "Some (F e) = Some m" by blast
  with m show ?thesis by auto
qed


text \<open>The pattern matches every string that reads \<open>data:<ty>/<sub><rest>\<close>, with group 1 as expected.\<close>

lemma match_at_reads:
  assumes "pattern_reads s ty sub rest"
  shows "\<exists>w. match_at s = Some [w, ty @ js ''/'' @ sub]"
proof -
  from assms have s: "s = js ''data:'' @ ty @ js ''/'' @ sub @ rest"
    and ty: "ty \<noteq> []" "\<forall>c \<in> set ty. alnum c"
    and sub: "sub \<noteq> []" "\<forall>c \<in> set sub. subtype_char c"
    and rest: "case rest of [] \<Rightarrow> True | c # cs \<Rightarrow> \<not> subtype_char c"
    and comma: "of_char CHR '','' \<in> set (takeWhile dot rest)"
    by (simp_all add: pattern_reads_def list_all_iff)
  let ?g0 = "ty @ js ''/'' @ sub @ rest"
  let ?F = "\<lambda>e. [span s e, span ?g0 rest]"
  let ?K3 = "\<lambda>g1. rx_star dot (rx_lit (js '','') (rx_star dot (\<lambda>e.
           Some [span s e, span ?g0 g1]))) g1"
  from tail_matches [OF comma, of ?F] obtain e where "?K3 rest = Some (?F e)"
    by (elim exE)
  moreover have "span ?g0 rest = ty @ js ''/'' @ sub"
    using span_append [of "ty @ js ''/'' @ sub" rest] by simp
  ultimately have k3: "?K3 rest = Some [span s e, ty @ js ''/'' @ sub]"
    by simp
  have "rx_plus subtype_char ?K3 (sub @ rest) = Some [span s e, ty @ js ''/'' @ sub]"
    using sub rest k3 by (rule rx_plus_greedy)
  then have "rx_lit (js ''/'') (rx_plus subtype_char ?K3) (js ''/'' @ sub @ rest)
               = Some [span s e, ty @ js ''/'' @ sub]"
    by (simp only: rx_lit_append)
  moreover have "case js ''/'' @ sub @ rest of [] \<Rightarrow> True | c # cs \<Rightarrow> \<not> alnum c"
    by (simp add: js_def alnum_def)
  ultimately have "rx_plus alnum (rx_lit (js ''/'') (rx_plus subtype_char ?K3)) ?g0
               = Some [span s e, ty @ js ''/'' @ sub]"
    using ty by (intro rx_plus_greedy) auto
  then have "rx_lit (js ''data:'') (\<lambda>g0.
       rx_plus alnum (rx_lit (js ''/'') (rx_plus subtype_char (\<lambda>g1.
         rx_star dot (rx_lit (js '','') (rx_star dot (\<lambda>e.
           Some [span s e, span g0 g1]))) g1))) g0) (js ''data:'' @ ?g0)
       = Some [span s e, ty @ js ''/'' @ sub]"
    by (simp only: rx_lit_append)
  then have "match_at s = Some [span s e, ty @ js ''/'' @ sub]"
    unfolding match_at_def s [symmetric] .
  then show ?thesis by blast
qed


subsection \<open>The search for the first match\<close>

lemma mimeTypeMatch_at_start: "match_at s = Some m \<Longrightarrow> mimeTypeMatch s = Some m"
  by (cases s) simp_all



subsection \<open>The extension\<close>

lemma extension_reads:
  assumes "pattern_reads url ty sub rest"
  shows "extension url = sub"
proof -
  from match_at_reads [OF assms] obtain w where "match_at url = Some [w, ty @ js ''/'' @ sub]"
    by (elim exE)
  then have "mimeTypeMatch url = Some [w, ty @ js ''/'' @ sub]"
    by (rule mimeTypeMatch_at_start)
  moreover have "split (of_char CHR ''/'') (ty @ js ''/'' @ sub) = [ty, sub]"
    using assms by (intro split_media_type) (simp_all add: pattern_reads_def list_all_iff)
  ultimately show ?thesis by (simp add: extension_def)
qed





section \<open>Properties of the service module\<close>

text \<open>
  C1: when the response has a first candidate, that candidate has a content whose list of
  parts has a first part, and that part carries inline data, the response is read as a
  success: the result is the data URI \<open>data:<mimeType>;base64,<data>\<close> built from the two fields
  of exactly that part, whatever the other parts and candidates are. Nothing is assumed
  about the completion reason, so this holds as well when it is \<open>SAFETY\<close>: the check for the
  image comes first. The same result is what \<open>editImageWithAI\<close> resolves with when the service
  returns that response.
\<close>

theorem image_present_wins:
  assumes "candidates r = Some (c # cs)" and "content c = Some ct"
    and "parts ct = Some (p # ps)" and "inlineData p = Some b"
  shows "interpretResponse r =
           Inr (js ''data:'' @ template (mimeType b) @ js '';base64,'' @ template (data b)) \<and>
    (data b = Str d \<and> mimeType b = Str m \<longrightarrow>
       interpretResponse r = Inr (js ''data:'' @ m @ js '';base64,'' @ d) \<and>
       (truthy API_KEY \<and> fileToBase64 f = Inr b64 \<and>
          generateContent (buildRequest f b64 promptText) = Returns r \<longrightarrow>
        editImageWithAI API_KEY generateContent f promptText =
          ([FileRead, NetworkCall (buildRequest f b64 promptText)],
           Inr (js ''data:'' @ m @ js '';base64,'' @ d))))"
  using assms
  by (simp add: interpretResponse_def editImageWithAI_def firstPart_def firstCandidate_def)

theorem image_present_wins_witness:
  "candidates two_candidate_response =
     Some (\<lparr> content = Some \<lparr> parts = Some [image_part, other_part] \<rparr>,
              finishReason = Some (js ''SAFETY'') \<rparr>
           # [\<lparr> content = Some \<lparr> parts = Some [other_part, image_part] \<rparr>,
                finishReason = Some (js ''STOP'') \<rparr>]) \<and>
   inlineData image_part = Some \<lparr> data = Str (js ''QUJD''), mimeType = Str (js ''image/png'') \<rparr> \<and>
   inlineData other_part = Some \<lparr> data = Str (js ''WFla''), mimeType = Str (js ''image/jpeg'') \<rparr> \<and>
   truthy example_key \<and>
   fileToBase64 example_file = Inr (Some (js ''iVBORw0KGgo='')) \<and>
   interpretResponse two_candidate_response = Inr (js ''data:image/png;base64,QUJD'') \<and>
   editImageWithAI example_key (\<lambda>req. Returns two_candidate_response) example_file (js ''add a hat'')
     = ([FileRead, NetworkCall (buildRequest example_file (Some (js ''iVBORw0KGgo='')) (js ''add a hat''))],
        Inr (js ''data:image/png;base64,QUJD''))"
  using image_present_wins [of two_candidate_response
      "\<lparr> content = Some \<lparr> parts = Some [image_part, other_part] \<rparr>,
         finishReason = Some (js ''SAFETY'') \<rparr>"
      "[\<lparr> content = Some \<lparr> parts = Some [other_part, image_part] \<rparr>,
          finishReason = Some (js ''STOP'') \<rparr>]"
      "\<lparr> parts = Some [image_part, other_part] \<rparr>" image_part "[other_part]"
      "\<lparr> data = Str (js ''QUJD''), mimeType = Str (js ''image/png'') \<rparr>"
      "js ''QUJD''" "js ''image/png''" example_key example_file "Some (js ''iVBORw0KGgo='')"
      "\<lambda>req. Returns two_candidate_response" "js ''add a hat''"]
  by (simp add: example_defs fileToBase64_def js_def)

text \<open>
  C2: when the API key is absent (or empty, which is falsy as well), \<open>editImageWithAI\<close>
  rejects with the not-configured error and has performed no effect at all: the file was not
  read and no network call was issued, whatever the file (readable or not), the prompt and
  the service are.
\<close>

theorem not_configured_first:
  "\<not> truthy API_KEY \<Longrightarrow>
     editImageWithAI API_KEY generateContent imageFile promptText
       = ([], Inl (Error msg_not_configured))"
  by (simp add: editImageWithAI_def)

theorem not_configured_first_witness:
  "\<not> truthy None \<and>
   readAsDataURL unreadable_file = None \<and>
   editImageWithAI None (\<lambda>r. Throws NonError) unreadable_file (js ''add a hat'')
     = ([], Inl (Error (js
         ''API_KEY environment variable not set. Please configure it to use the AI features.'')))"
  using not_configured_first [of None "\<lambda>r. Throws NonError" unreadable_file "js ''add a hat''"]
  by (simp add: example_defs msg_not_configured_def)

text \<open>
  C3: when the key is configured, the file is readable and the external call throws,
  \<open>editImageWithAI\<close> rejects. If the thrown value is an \<open>Error\<close>, the rejection is that very
  error, so its message is the cause's message; otherwise it is an \<open>Error\<close> with the generic
  message about an unknown error while communicating with the service.
\<close>

theorem transport_failure:
  assumes "truthy API_KEY" and "fileToBase64 f = Inr b64"
    and "generateContent (buildRequest f b64 promptText) = Throws cause"
  shows "snd (editImageWithAI API_KEY generateContent f promptText) =
           Inl (case cause of Error m \<Rightarrow> Error m | NonError \<Rightarrow> Error msg_unknown_service)"
  using assms by (cases cause) (simp_all add: editImageWithAI_def)

theorem transport_failure_witness:
  "truthy example_key \<and>
   fileToBase64 example_file = Inr (Some (js ''iVBORw0KGgo='')) \<and>
   snd (editImageWithAI example_key (\<lambda>req. Throws (Error (js ''fetch failed''))) example_file
          (js ''add a hat'')) = Inl (Error (js ''fetch failed'')) \<and>
   snd (editImageWithAI example_key (\<lambda>req. Throws NonError) example_file (js ''add a hat''))
     = Inl (Error (js ''An unknown error occurred while communicating with the AI service.''))"
  using transport_failure [of example_key example_file "Some (js ''iVBORw0KGgo='')"
      "\<lambda>req. Throws (Error (js ''fetch failed''))" "js ''add a hat''" "Error (js ''fetch failed'')"]
    transport_failure [of example_key example_file "Some (js ''iVBORw0KGgo='')"
      "\<lambda>req. Throws NonError" "js ''add a hat''" NonError]
  by (simp add: example_defs fileToBase64_def msg_unknown_service_def js_def)





text \<open>
  C7: when the key is configured and the file cannot be read, \<open>editImageWithAI\<close> rejects with
  the read-failure error after reading and logging only: no network call is issued. The error
  differs from the three errors that the code builds after the call (safety-blocked, no-image,
  and the generic service error), and it differs from them by the run as well: with the same
  key, every run on a readable file does issue the network call.
\<close>

theorem read_failure:
  assumes "truthy API_KEY" and "readAsDataURL f = None"
  shows "editImageWithAI API_KEY generateContent f promptText =
           ([FileRead, ConsoleError (js ''Error reading file:'')], Inl (Error msg_read_failure)) \<and>
    \<not> list_ex is_NetworkCall (fst (editImageWithAI API_KEY generateContent f promptText)) \<and>
    msg_read_failure =
      js ''Failed to read image file. It may be corrupted or in an unsupported format.'' \<and>
    msg_read_failure \<noteq> msg_unknown_service \<and>
    msg_read_failure \<noteq> msg_safety_blocked \<and>
    msg_read_failure \<noteq> msg_no_image \<and>
    (\<forall>g f' p' b64. fileToBase64 f' = Inr b64 \<longrightarrow>
        list_ex is_NetworkCall (fst (editImageWithAI API_KEY g f' p')))"
proof -
  have "list_ex is_NetworkCall (fst (editImageWithAI API_KEY g f' p'))"
    if "fileToBase64 f' = Inr b64" for g f' p' b64
    using that assms(1)
    by (simp add: editImageWithAI_def Let_def split: service_outcome.split sum.split)
  moreover have "editImageWithAI API_KEY generateContent f promptText =
      ([FileRead, ConsoleError (js ''Error reading file:'')], Inl (Error msg_read_failure))"
    using assms by (simp add: editImageWithAI_def fileToBase64_def)
  moreover have "msg_read_failure \<noteq> msg_unknown_service \<and>
      msg_read_failure \<noteq> msg_safety_blocked \<and> msg_read_failure \<noteq> msg_no_image"
    by (simp add: msg_read_failure_def msg_unknown_service_def msg_safety_blocked_def
        msg_no_image_def js_def)
  ultimately show ?thesis
    by (simp add: msg_read_failure_def)
qed

theorem read_failure_witness:
  "truthy example_key \<and> readAsDataURL unreadable_file = None \<and>
   fileToBase64 example_file = Inr (Some (js ''iVBORw0KGgo='')) \<and>
   editImageWithAI example_key (\<lambda>req. Returns image_and_safety_response) unreadable_file
       (js ''add a hat'') =
     ([FileRead, ConsoleError (js ''Error reading file:'')], Inl (Error msg_read_failure)) \<and>
   list_ex is_NetworkCall (fst (editImageWithAI example_key
       (\<lambda>req. Returns blocked_response) example_file (js ''add a hat'')))"
  using read_failure [of example_key unreadable_file "\<lambda>req. Returns image_and_safety_response"
      "js ''add a hat''"]
  by (simp add: example_defs fileToBase64_def js_def)

section \<open>Properties of the image display component\<close>




section \<open>Properties of the service module and the display component together\<close>

text \<open>
  C9: when the key is configured, the file is readable and the service returns a response
  in which the first part of the first candidate carries inline data with the media type
  \<open>image/<sub>\<close>, \<open>sub\<close> being a non-empty string over \<open>[a-zA-Z0-9-.+]\<close>, then \<open>editImageWithAI\<close>
  resolves with a URL for which \<open>handleDownload\<close> names the file \<open>genz-hub-edit.<sub>\<close>, whatever
  the other parts and candidates are.
\<close>

theorem media_type_round_trip:
  assumes "truthy API_KEY" and "fileToBase64 f = Inr b64"
    and "generateContent (buildRequest f b64 promptText) = Returns r"
    and "candidates r = Some (c # cs)" and "content c = Some ct"
    and "parts ct = Some (p # ps)" and "inlineData p = Some b"
    and "mimeType b = Str (js ''image/'' @ sub)"
    and "sub \<noteq> []" and "list_all subtype_char sub"
  shows "\<exists>url. snd (editImageWithAI API_KEY generateContent f promptText) = Inr url \<and>
           url = js ''data:image/'' @ sub @ js '';base64,'' @ template (data b) \<and>
           handleDownload (Some url) =
             Some \<lparr> href = url, download = js ''genz-hub-edit.'' @ sub \<rparr>"
proof -
  let ?rest = "js '';base64,'' @ template (data b)"
  let ?url = "js ''data:'' @ js ''image'' @ js ''/'' @ sub @ ?rest"
  have "interpretResponse r = Inr ?url"
    using assms(4-8) by (simp add: interpretResponse_def firstPart_def firstCandidate_def js_def)
  with assms(1-3) have run: "snd (editImageWithAI API_KEY generateContent f promptText) = Inr ?url"
    by (simp add: editImageWithAI_def)
  have "pattern_reads ?url (js ''image'') sub ?rest"
    using assms(9,10)
    by (simp add: pattern_reads_def js_def alnum_def subtype_char_def dot_def)
  then have "extension ?url = sub" by (rule extension_reads)
  moreover have "?url \<noteq> []" by (simp add: js_def)
  ultimately have "handleDownload (Some ?url) =
      Some \<lparr> href = ?url, download = js ''genz-hub-edit.'' @ sub \<rparr>"
    by (simp add: handleDownload_def)
  moreover have "?url = js ''data:image/'' @ sub @ js '';base64,'' @ template (data b)"
    by (simp add: js_def)
  ultimately show ?thesis using run by metis
qed

theorem media_type_round_trip_witness:
  "truthy example_key \<and>
   fileToBase64 example_file = Inr (Some (js ''iVBORw0KGgo='')) \<and>
   candidates two_candidate_response =
     Some (\<lparr> content = Some \<lparr> parts = Some [image_part, other_part] \<rparr>,
              finishReason = Some (js ''SAFETY'') \<rparr>
           # [\<lparr> content = Some \<lparr> parts = Some [other_part, image_part] \<rparr>,
                finishReason = Some (js ''STOP'') \<rparr>]) \<and>
   inlineData image_part = Some \<lparr> data = Str (js ''QUJD''), mimeType = Str (js ''image/png'') \<rparr> \<and>
   inlineData other_part = Some \<lparr> data = Str (js ''WFla''), mimeType = Str (js ''image/jpeg'') \<rparr> \<and>
   js ''png'' \<noteq> [] \<and> list_all subtype_char (js ''png'') \<and>
   snd (editImageWithAI example_key (\<lambda>req. Returns two_candidate_response)
          example_file (js ''add a hat'')) = Inr (js ''data:image/png;base64,QUJD'') \<and>
   handleDownload (Some (js ''data:image/png;base64,QUJD'')) =
     Some \<lparr> href = js ''data:image/png;base64,QUJD'', download = js ''genz-hub-edit.png'' \<rparr>"
  using media_type_round_trip [of example_key example_file "Some (js ''iVBORw0KGgo='')"
      "\<lambda>req. Returns two_candidate_response" "js ''add a hat''" two_candidate_response
      "\<lparr> content = Some \<lparr> parts = Some [image_part, other_part] \<rparr>,
         finishReason = Some (js ''SAFETY'') \<rparr>"
      "[\<lparr> content = Some \<lparr> parts = Some [other_part, image_part] \<rparr>,
          finishReason = Some (js ''STOP'') \<rparr>]"
      "\<lparr> parts = Some [image_part, other_part] \<rparr>" image_part "[other_part]"
      "\<lparr> data = Str (js ''QUJD''), mimeType = Str (js ''image/png'') \<rparr>" "js ''png''"]
  by (simp add: example_defs fileToBase64_def js_def subtype_char_def alnum_def)

section \<open>Properties of the application component\<close>

text \<open>
  C6: a picked file of more than \<open>4 * 1024 * 1024\<close> bytes is rejected with the too-large error,
  whatever its type is: the callback only records the error and ends the upload, and after
  the whole handler no file is held for editing.
\<close>

theorem too_large_rejected:
  assumes "file_size f > 4 * 1024 * 1024"
  shows "handleImageChange_timeout f s =
           s\<lparr> runtimeError := Some msg_too_large, isUploading := False \<rparr> \<and>
    handleImageChange (Some f) s =
      s\<lparr> originalImageFile := None, editedImageUrl := None,
         runtimeError := Some msg_too_large, isUploading := False \<rparr> \<and>
    originalImageFile (handleImageChange (Some f) s) = None \<and>
    originalImageFile (handleImageChange_timeout f s) = originalImageFile s"
  using assms
  by (simp add: handleImageChange_def handleImageChange_timeout_def handleImageChange_start_def)

theorem too_large_rejected_witness:
  "file_size large_file > 4 * 1024 * 1024 \<and>
   file_type large_file \<notin> set allowedTypes \<and>
   handleImageChange (Some large_file) example_state =
     example_state\<lparr> originalImageFile := None, editedImageUrl := None,
         runtimeError := Some (js ''Image size exceeds 4MB. Please choose a smaller file.''),
         isUploading := False \<rparr>"
  using too_large_rejected [of large_file example_state]
  by (simp add: example_defs msg_too_large_def allowedTypes_def js_def)

text \<open>
  C10: when \<open>editImageWithAI\<close> rejects, \<open>handleSubmit\<close> (in either version) ends in the state it
  started from with \<open>editedImageUrl\<close> cleared, \<open>runtimeError\<close> set to the message of the thrown
  \<open>Error\<close> and \<open>isLoading\<close> reset. The part after the \<open>await\<close> never touches \<open>editedImageUrl\<close> on
  a rejection, and the message recorded for a thrown value that is not an \<open>Error\<close> is the
  generic one.
\<close>

theorem failed_submission:
  "handleSubmit_settle (Inl e) (handleSubmit_start s) =
     s\<lparr> isLoading := False, runtimeError := Some (errorMessage e), editedImageUrl := None \<rparr> \<and>
   editedImageUrl (handleSubmit_settle (Inl e) s') = editedImageUrl s' \<and>
   errorMessage (Error m) = m \<and>
   errorMessage NonError = js ''An unknown error occurred.'' \<and>
   (originalImageFile s = Some f \<and> trim (prompt s) \<noteq> [] \<and>
    snd (editImageWithAI API_KEY generateContent f (prompt s)) = Inl e \<longrightarrow>
      handleSubmit_v1 API_KEY generateContent s =
        s\<lparr> isLoading := False, runtimeError := Some (errorMessage e), editedImageUrl := None \<rparr> \<and>
      (truthy API_KEY \<longrightarrow>
       handleSubmit API_KEY generateContent s =
        s\<lparr> isLoading := False, runtimeError := Some (errorMessage e), editedImageUrl := None \<rparr>))"
  by (simp add: handleSubmit_settle_def handleSubmit_start_def handleSubmit_def handleSubmit_v1_def
      msg_unknown_def)

theorem failed_submission_witness:
  "originalImageFile example_state = Some example_file \<and>
   trim (prompt example_state) \<noteq> [] \<and>
   truthy example_key \<and>
   snd (editImageWithAI example_key (\<lambda>req. Returns blocked_response) example_file
          (prompt example_state)) = Inl (Error msg_safety_blocked) \<and>
   editedImageUrl example_state \<noteq> None \<and>
   handleSubmit example_key (\<lambda>req. Returns blocked_response) example_state =
     example_state\<lparr> isLoading := False, runtimeError := Some msg_safety_blocked,
       editedImageUrl := None \<rparr> \<and>
   handleSubmit_v1 None (\<lambda>req. Returns blocked_response) example_state =
     example_state\<lparr> isLoading := False, runtimeError := Some msg_not_configured,
       editedImageUrl := None \<rparr>"
  using failed_submission [of "Error msg_safety_blocked" example_state example_state
      "js ''x''" example_file example_key "\<lambda>req. Returns blocked_response"]
    failed_submission [of "Error msg_not_configured" example_state example_state
      "js ''x''" example_file None "\<lambda>req. Returns blocked_response"]
  by (simp add: example_defs trim_def white_space_def js_def editImageWithAI_def
      fileToBase64_def interpretResponse_def firstPart_def firstCandidate_def)

end
